theory Spec2Isabelle
  imports Main
begin

section \<open>Values and rows\<close>

text \<open>
  The serializers of \<^verbatim>\<open>analytics_data_api/v0/serializers.py\<close> read dynamically typed
  Python values. The code never computes on a float (ratios and range bounds are passed
  through), so the carrier of floats is left as the type parameter \<open>'f\<close>.
\<close>

datatype 'f pyval =
    PyNone
  | PyInt int
  | PyBool bool
  | PyStr string
  | PyFloat 'f

text \<open>
  A row handed to a serializer is either a dict or an object with attributes; both are a
  finite map from a name to a value. A name outside the domain is a missing key or a
  missing attribute.
\<close>

type_synonym 'f row = "string \<rightharpoonup> 'f pyval"

section \<open>Field lists of the answer distribution serializers\<close>

text \<open>\<^verbatim>\<open>ProblemResponseAnswerDistributionSerializer.Meta.fields\<close>\<close>

definition ProblemResponseAnswerDistributionSerializer_fields :: "string list" where
  "ProblemResponseAnswerDistributionSerializer_fields =
     [''course_id'', ''module_id'', ''part_id'', ''correct'', ''count'', ''value_id'',
      ''answer_value'', ''problem_display_name'', ''question_text'', ''variant'', ''created'']"

text \<open>
  \<^verbatim>\<open>ProblemFirstLastResponseAnswerDistributionSerializer.Meta.fields\<close>: the base tuple
  extended by the two counters, then filtered by the comprehension
  \<^verbatim>\<open>[field for field in fields if field != 'count']\<close>.
\<close>

definition ProblemFirstLastResponseAnswerDistributionSerializer_fields :: "string list" where
  "ProblemFirstLastResponseAnswerDistributionSerializer_fields =
     (let fields = ProblemResponseAnswerDistributionSerializer_fields @
                     [''first_response_count'', ''last_response_count'']
      in filter (\<lambda>field. field \<noteq> ''count'') fields)"



section \<open>Course activity\<close>

text \<open>
  A row of \<^verbatim>\<open>models.CourseActivityWeekly\<close>, with the attributes named in
  \<^verbatim>\<open>CourseActivityByWeekSerializer.Meta.fields\<close>. The type \<open>'d\<close> is the type of
  timestamps, which the serializer does not inspect.
\<close>

record 'd course_activity =
  interval_start :: 'd
  interval_end :: 'd
  activity_type :: "nat list"
  count :: int
  course_id :: string

text \<open>
  The activity type is a Python text, the list of its Unicode code points, since the
  lower-casing of the code is not limited to ASCII. A literal of the source such as
  \<^verbatim>\<open>'active'\<close> is the list of the codes of its characters.
\<close>

definition ustr :: "string \<Rightarrow> nat list" where
  "ustr s = map of_char s"

text \<open>
  \<^verbatim>\<open>.lower()\<close> is a method of Python's text type and is governed by the case tables of
  the interpreter, which are no part of the source. It is the parameter \<open>py_lower\<close> of the
  serializer's method. What is used of it is its behaviour on ASCII text: there the
  codes 65 to 90 (\<open>A\<close> to \<open>Z\<close>) move up by 32 (to \<open>a\<close> to \<open>z\<close>) and every other code
  is kept.
\<close>

definition ascii_lower :: "nat list \<Rightarrow> nat list" where
  "ascii_lower s = map (\<lambda>c. if 65 \<le> c \<and> c \<le> 90 then c + 32 else c) s"

definition lowers_ascii :: "(nat list \<Rightarrow> nat list) \<Rightarrow> bool" where
  "lowers_ascii py_lower = (\<forall>s. (\<forall>c \<in> set s. c < 128) \<longrightarrow> py_lower s = ascii_lower s)"

text \<open>
  A lower-casing for the examples, which also treats the capital letters of Latin-1: the
  codes 192 to 222 other than the multiplication sign 215 move up by 32, so that the
  capital E with an acute accent, code 201, becomes the small one, code 233.
\<close>

definition latin1_lower :: "nat list \<Rightarrow> nat list" where
  "latin1_lower s =
     map (\<lambda>c. if (65 \<le> c \<and> c \<le> 90) \<or> (192 \<le> c \<and> c \<le> 222 \<and> c \<noteq> 215) then c + 32 else c) s"

text \<open>\<^verbatim>\<open>CourseActivityByWeekSerializer.get_activity_type\<close>\<close>

definition get_activity_type :: "(nat list \<Rightarrow> nat list) \<Rightarrow> 'd course_activity \<Rightarrow> nat list" where
  "get_activity_type py_lower obj =
     (let activity_type = py_lower (activity_type obj);
          activity_type = (if activity_type = ustr ''active'' then ustr ''any'' else activity_type)
      in activity_type)"

section \<open>Reading dicts and attributes\<close>

text \<open>\<^verbatim>\<open>obj.get(key, default)\<close> on a dict.\<close>

definition dict_get :: "'f row \<Rightarrow> string \<Rightarrow> 'f pyval \<Rightarrow> 'f pyval" where
  "dict_get obj key dflt = (case obj key of None \<Rightarrow> dflt | Some v \<Rightarrow> v)"

text \<open>\<^verbatim>\<open>getattr(obj, name, default)\<close> on an object.\<close>

definition getattr :: "'f row \<Rightarrow> string \<Rightarrow> 'f pyval \<Rightarrow> 'f pyval" where
  "getattr obj name dflt = (case obj name of None \<Rightarrow> dflt | Some v \<Rightarrow> v)"

text \<open>\<^verbatim>\<open>DefaultIfNoneMixin.default_if_none\<close>\<close>

definition default_if_none :: "'f pyval \<Rightarrow> 'f pyval \<Rightarrow> 'f pyval" where
  "default_if_none value dflt = (if value \<noteq> PyNone then value else dflt)"

section \<open>Enrollment by mode\<close>

text \<open>
  Modelled from the spec: the constants \<^verbatim>\<open>AUDIT\<close>, \<^verbatim>\<open>CREDIT\<close>, \<^verbatim>\<open>HONOR\<close>,
  \<^verbatim>\<open>PROFESSIONAL\<close> and \<^verbatim>\<open>VERIFIED\<close> of the module
  \<^verbatim>\<open>analytics_data_api.constants.enrollment_modes\<close>, which is not among the source
  files. The spec names the known modes audit, credit, honor, professional, verified.
\<close>

definition enrollment_modes_AUDIT :: string where
  "enrollment_modes_AUDIT = ''audit''"

definition enrollment_modes_CREDIT :: string where
  "enrollment_modes_CREDIT = ''credit''"

definition enrollment_modes_HONOR :: string where
  "enrollment_modes_HONOR = ''honor''"

definition enrollment_modes_PROFESSIONAL :: string where
  "enrollment_modes_PROFESSIONAL = ''professional''"

definition enrollment_modes_VERIFIED :: string where
  "enrollment_modes_VERIFIED = ''verified''"

text \<open>\<^verbatim>\<open>ENROLLMENT_MODES\<close>, the enrollment modes supported by the API.\<close>

definition ENROLLMENT_MODES :: "string list" where
  "ENROLLMENT_MODES =
     [enrollment_modes_AUDIT, enrollment_modes_CREDIT, enrollment_modes_HONOR,
      enrollment_modes_PROFESSIONAL, enrollment_modes_VERIFIED]"

text \<open>The five getters of \<^verbatim>\<open>CourseEnrollmentModeDailySerializer\<close>.\<close>

definition get_audit :: "'f row \<Rightarrow> 'f pyval" where
  "get_audit obj = dict_get obj ''audit'' (PyInt 0)"

definition get_honor :: "'f row \<Rightarrow> 'f pyval" where
  "get_honor obj = dict_get obj ''honor'' (PyInt 0)"

definition get_credit :: "'f row \<Rightarrow> 'f pyval" where
  "get_credit obj = dict_get obj ''credit'' (PyInt 0)"

definition get_professional :: "'f row \<Rightarrow> 'f pyval" where
  "get_professional obj = dict_get obj ''professional'' (PyInt 0)"

definition get_verified :: "'f row \<Rightarrow> 'f pyval" where
  "get_verified obj = dict_get obj ''verified'' (PyInt 0)"

text \<open>
  The class body declares five fields \<^verbatim>\<open>serializers.SerializerMethodField()\<close>, in the
  order audit, credit, honor, professional, verified. A method field named \<open>f\<close> takes
  its value from the method \<^verbatim>\<open>get_f\<close> of the serializer, applied to the row.
\<close>

definition CourseEnrollmentModeDailySerializer_method_fields ::
  "(string \<times> ('f row \<Rightarrow> 'f pyval)) list" where
  "CourseEnrollmentModeDailySerializer_method_fields =
     [(''audit'', get_audit), (''credit'', get_credit), (''honor'', get_honor),
      (''professional'', get_professional), (''verified'', get_verified)]"

text \<open>\<^verbatim>\<open>CourseEnrollmentModeDailySerializer.Meta.fields\<close>\<close>

definition CourseEnrollmentModeDailySerializer_fields :: "string list" where
  "CourseEnrollmentModeDailySerializer_fields =
     [''course_id'', ''date'', ''count'', ''cumulative_count'', ''created''] @ ENROLLMENT_MODES"

text \<open>
  The entries that the method fields contribute to the serialized row: one per field of
  \<^verbatim>\<open>Meta.fields\<close> that is declared as a method field, in the order of \<^verbatim>\<open>Meta.fields\<close>.
\<close>

definition CourseEnrollmentModeDailySerializer_mode_data ::
  "'f row \<Rightarrow> (string \<times> 'f pyval) list" where
  "CourseEnrollmentModeDailySerializer_mode_data obj =
     List.map_filter
       (\<lambda>field. case map_of CourseEnrollmentModeDailySerializer_method_fields field of
                   None \<Rightarrow> None
                 | Some getter \<Rightarrow> Some (field, getter obj))
       CourseEnrollmentModeDailySerializer_fields"

section \<open>Learner engagements\<close>

text \<open>\<^verbatim>\<open>LearnerSerializer.get_engagements\<close>: the loop over the four defaulted fields is a
  fold over the list, the dict \<^verbatim>\<open>engagements\<close> is a map.\<close>

definition default_if_none_fields :: "string list" where
  "default_if_none_fields =
     [''discussion_contributions'', ''problems_attempted'',
      ''problems_completed'', ''videos_viewed'']"

definition get_engagements :: "'f row \<Rightarrow> 'f row" where
  "get_engagements obj =
     (let engagements = Map.empty;
          engagements =
            foldl (\<lambda>e field. e(field \<mapsto> default_if_none (getattr obj field PyNone) (PyInt 0)))
              engagements default_if_none_fields;
          engagements =
            engagements(''problem_attempts_per_completed'' \<mapsto>
              getattr obj ''problem_attempts_per_completed'' PyNone)
      in engagements)"

section \<open>Engagement ranges\<close>

text \<open>
  A row of \<^verbatim>\<open>ModuleEngagementMetricRanges\<close>, with the attributes that the serializers
  read: \<^verbatim>\<open>metric\<close> and \<^verbatim>\<open>range_type\<close> (the filter arguments), \<^verbatim>\<open>low_value\<close> and
  \<^verbatim>\<open>high_value\<close> (the bounds) and \<^verbatim>\<open>start_date\<close> and \<^verbatim>\<open>end_date\<close> (the sources of
  \<^verbatim>\<open>DateRangeSerializer\<close>). The bounds have type \<open>'f\<close>, the dates type \<open>'d\<close>.
\<close>

record ('f, 'd) engagement_range =
  metric :: string
  range_type :: string
  low_value :: 'f
  high_value :: 'f
  start_date :: 'd
  end_date :: 'd

text \<open>
  The collection \<^verbatim>\<open>obj['engagement_ranges']\<close> is a list of rows in input order.
  \<^verbatim>\<open>query_set.filter(metric=m, range_type=t)\<close> keeps the rows with these two values, in
  that order.
\<close>

definition queryset_filter ::
  "('f, 'd) engagement_range list \<Rightarrow> string \<Rightarrow> string \<Rightarrow> ('f, 'd) engagement_range list" where
  "queryset_filter query_set m t = filter (\<lambda>row. metric row = m \<and> range_type row = t) query_set"

text \<open>
  \<^verbatim>\<open>EnagementRangeMetricSerializer._transform_range\<close>: the pair of bounds of a row, None
  for no row. The result None is the option \<open>None\<close>.
\<close>

definition transform_range :: "('f, 'd) engagement_range option \<Rightarrow> 'f list option" where
  "transform_range metric_range =
     (case metric_range of
        Some row \<Rightarrow> Some [low_value row, high_value row]
      | None \<Rightarrow> None)"

text \<open>The dict with the keys \<open>low_range\<close>, \<open>normal_range\<close> and \<open>high_range\<close> that
  \<^verbatim>\<open>get_engagement_ranges\<close> hands to \<^verbatim>\<open>EnagementRangeMetricSerializer\<close>.\<close>

record ('f, 'd) range_rows =
  low_range :: "('f, 'd) engagement_range option"
  normal_range :: "('f, 'd) engagement_range option"
  high_range :: "('f, 'd) engagement_range option"

definition get_average_range :: "('f, 'd) range_rows \<Rightarrow> 'f list option" where
  "get_average_range obj = transform_range (normal_range obj)"

definition get_below_average_range :: "('f, 'd) range_rows \<Rightarrow> 'f list option" where
  "get_below_average_range obj = transform_range (low_range obj)"

definition get_above_average_range :: "('f, 'd) range_rows \<Rightarrow> 'f list option" where
  "get_above_average_range obj = transform_range (high_range obj)"

text \<open>
  The serialized form of one metric: the three method fields \<open>below_average\<close>,
  \<open>average\<close> and \<open>above_average\<close> of \<^verbatim>\<open>EnagementRangeMetricSerializer\<close>, each bound to
  the method that its declaration names.
\<close>

record 'f metric_ranges =
  below_average :: "'f list option"
  average :: "'f list option"
  above_average :: "'f list option"

definition EnagementRangeMetricSerializer_data :: "('f, 'd) range_rows \<Rightarrow> 'f metric_ranges" where
  "EnagementRangeMetricSerializer_data obj =
     \<lparr>below_average = get_below_average_range obj,
      average = get_average_range obj,
      above_average = get_above_average_range obj\<rparr>"

text \<open>
  \<^verbatim>\<open>DateRangeSerializer(row).data\<close>: the start and the end date of the row, each printed
  by the date field, whose printing \<open>fmt\<close> (the format \<^verbatim>\<open>settings.DATE_FORMAT\<close>) is a
  parameter. The serializer of no row is \<open>None\<close> here.
\<close>

definition DateRangeSerializer_data ::
  "('d \<Rightarrow> string) \<Rightarrow> ('f, 'd) engagement_range option \<Rightarrow> (string \<times> string) option" where
  "DateRangeSerializer_data fmt instance =
     map_option (\<lambda>row. (fmt (start_date row), fmt (end_date row))) instance"

text \<open>A value of the dict that \<^verbatim>\<open>get_engagement_ranges\<close> returns.\<close>

datatype 'f range_entry =
    DateRange "(string \<times> string) option"
  | MetricRanges "'f metric_ranges"

text \<open>The input of \<^verbatim>\<open>CourseLearnerMetadataSerializer\<close>.\<close>

record ('f, 'd, 'e) course_learner_metadata =
  es_data :: 'e
  engagement_ranges :: "('f, 'd) engagement_range list"

text \<open>
  \<^verbatim>\<open>CourseLearnerMetadataSerializer.get_engagement_ranges\<close>. The list
  \<^verbatim>\<open>engagement_events.EVENTS\<close> belongs to a module that is not among the source files and
  is the parameter \<open>EVENTS\<close>. The loop over the metrics is a fold, \<^verbatim>\<open>dict.update\<close> with
  one key is a map update, and \<^verbatim>\<open>q[0] if len(q) else None\<close> is written as it stands.
\<close>

definition get_engagement_ranges ::
  "string list \<Rightarrow> ('d \<Rightarrow> string) \<Rightarrow> ('f, 'd, 'e) course_learner_metadata
     \<Rightarrow> (string \<rightharpoonup> 'f range_entry)" where
  "get_engagement_ranges EVENTS fmt obj =
     (let query_set = engagement_ranges obj;
          engagement_ranges =
            [''date_range'' \<mapsto>
               DateRange (DateRangeSerializer_data fmt
                 (if length query_set \<noteq> 0 then Some (query_set ! 0) else None))]
      in foldl
           (\<lambda>engagement_ranges metric.
              let low_range_queryset = queryset_filter query_set metric ''low'';
                  normal_range_queryset = queryset_filter query_set metric ''normal'';
                  high_range_queryset = queryset_filter query_set metric ''high''
              in engagement_ranges(metric \<mapsto>
                   MetricRanges (EnagementRangeMetricSerializer_data
                     \<lparr>low_range =
                        (if length low_range_queryset \<noteq> 0
                         then Some (low_range_queryset ! 0) else None),
                      normal_range =
                        (if length normal_range_queryset \<noteq> 0
                         then Some (normal_range_queryset ! 0) else None),
                      high_range =
                        (if length high_range_queryset \<noteq> 0
                         then Some (high_range_queryset ! 0) else None)\<rparr>)))
           engagement_ranges EVENTS)"

section \<open>Connection bootstrap\<close>

text \<open>
  The settings that \<^verbatim>\<open>ApiAppConfig.ready\<close> of \<^verbatim>\<open>analytics_data_api/v0/apps.py\<close> reads.
  A setting is a string or None.
\<close>

record settings =
  ELASTICSEARCH_LEARNERS_HOST :: "string option"
  ELASTICSEARCH_CONNECTION_CLASS :: "string option"
  ELASTICSEARCH_AWS_ACCESS_KEY_ID :: "string option"
  ELASTICSEARCH_AWS_SECRET_ACCESS_KEY :: "string option"
  ELASTICSEARCH_CONNECTION_DEFAULT_REGION :: "string option"

text \<open>Python's truth value of a setting: None and the empty string are false.\<close>

definition truthy :: "string option \<Rightarrow> bool" where
  "truthy v = (case v of None \<Rightarrow> False | Some s \<Rightarrow> s \<noteq> [])"

text \<open>
  A value of the dict \<^verbatim>\<open>connection_params\<close>: None, the list of hosts, a string setting,
  or the object that the transport class reference resolves to (of type \<open>'c\<close>).
\<close>

datatype 'c param =
    ParamNone
  | ParamHosts "string list"
  | ParamStr string
  | ParamClass 'c

definition setting_value :: "string option \<Rightarrow> 'c param" where
  "setting_value v = (case v of None \<Rightarrow> ParamNone | Some s \<Rightarrow> ParamStr s)"

datatype load_error = ValueError | ImportError | AttributeError

text \<open>
  \<^verbatim>\<open>definition.rsplit('.', 1)\<close>, unpacked into two names: the text before the last dot
  and the text after it; without a dot the unpacking raises \<^verbatim>\<open>ValueError\<close>.
\<close>

definition rsplit_dot :: "string \<Rightarrow> load_error + (string \<times> string)" where
  "rsplit_dot definition =
     (if CHR ''.'' \<in> set definition
      then Inr (rev (tl (dropWhile (\<lambda>c. c \<noteq> CHR ''.'') (rev definition))),
                rev (takeWhile (\<lambda>c. c \<noteq> CHR ''.'') (rev definition)))
      else Inl ValueError)"

text \<open>
  \<^verbatim>\<open>load_fully_qualified_definition\<close>. The import of the module and the lookup of the
  attribute are the parameter \<open>resolve\<close>, which fails with \<^verbatim>\<open>ImportError\<close> or
  \<^verbatim>\<open>AttributeError\<close> or returns the attribute's value.
\<close>

definition load_fully_qualified_definition ::
  "(string \<Rightarrow> string \<Rightarrow> load_error + 'c param) \<Rightarrow> string \<Rightarrow> load_error + 'c param" where
  "load_fully_qualified_definition resolve definition =
     (case rsplit_dot definition of
        Inl e \<Rightarrow> Inl e
      | Inr (module_name, class_name) \<Rightarrow> resolve module_name class_name)"

text \<open>
  \<^verbatim>\<open>ApiAppConfig.ready\<close>. The result \<open>Inr None\<close> is a return without a call of
  \<^verbatim>\<open>create_connection\<close>, \<open>Inr (Some connection_params)\<close> is the call
  \<^verbatim>\<open>create_connection(**connection_params)\<close>, and \<open>Inl e\<close> is an exception raised while
  the transport class is loaded, before any call.
\<close>

definition ready ::
  "(string \<Rightarrow> string \<Rightarrow> load_error + 'c param) \<Rightarrow> settings
     \<Rightarrow> load_error + (string \<rightharpoonup> 'c param) option" where
  "ready resolve s =
     (case ELASTICSEARCH_LEARNERS_HOST s of
        None \<Rightarrow> Inr None
      | Some host \<Rightarrow>
          if host = [] then Inr None
          else
            let connection_params = [''hosts'' \<mapsto> ParamHosts [host]]
            in case (if truthy (ELASTICSEARCH_CONNECTION_CLASS s)
                     then (case ELASTICSEARCH_CONNECTION_CLASS s of
                             None \<Rightarrow> Inr connection_params
                           | Some definition \<Rightarrow>
                               (case load_fully_qualified_definition resolve definition of
                                  Inl e \<Rightarrow> Inl e
                                | Inr cls \<Rightarrow> Inr (connection_params(''connection_class'' \<mapsto> cls))))
                     else Inr connection_params) of
                 Inl e \<Rightarrow> Inl e
               | Inr connection_params \<Rightarrow>
                   let connection_params = connection_params
                         (''aws_access_key_id'' \<mapsto>
                            setting_value (ELASTICSEARCH_AWS_ACCESS_KEY_ID s));
                       connection_params = connection_params
                         (''aws_secret_access_key'' \<mapsto>
                            setting_value (ELASTICSEARCH_AWS_SECRET_ACCESS_KEY s));
                       connection_params = connection_params
                         (''region'' \<mapsto>
                            setting_value (ELASTICSEARCH_CONNECTION_DEFAULT_REGION s));
                       connection_params =
                         (\<lambda>key. case connection_params key of
                                  None \<Rightarrow> None
                                | Some val \<Rightarrow> if val \<noteq> ParamNone then Some val else None)
                   in Inr (Some connection_params))"

section \<open>Output of the answer distribution serializers\<close>








section \<open>Theorems\<close>

subsection \<open>Answer distribution field lists\<close>

lemma first_last_fields_unfolded:
  "ProblemFirstLastResponseAnswerDistributionSerializer_fields =
     [''course_id'', ''module_id'', ''part_id'', ''correct'', ''value_id'',
      ''answer_value'', ''problem_display_name'', ''question_text'', ''variant'', ''created'',
      ''first_response_count'', ''last_response_count'']"
  by (simp add: ProblemFirstLastResponseAnswerDistributionSerializer_fields_def
      ProblemResponseAnswerDistributionSerializer_fields_def)

text \<open>
  Claim C7. The field set of the first/last answer distribution serializer is the field
  set of the base distribution serializer without \<open>count\<close> and with
  \<open>first_response_count\<close> and \<open>last_response_count\<close> added. The field \<open>count\<close> is
  excluded by name, every other base field is kept, in the base order and before the two
  new counters, and no field occurs twice.
\<close>

theorem first_last_fields_are_base_without_count:
  "set ProblemFirstLastResponseAnswerDistributionSerializer_fields =
     (set ProblemResponseAnswerDistributionSerializer_fields - {''count''})
       \<union> {''first_response_count'', ''last_response_count''}
   \<and> ''count'' \<in> set ProblemResponseAnswerDistributionSerializer_fields
   \<and> ''count'' \<notin> set ProblemFirstLastResponseAnswerDistributionSerializer_fields
   \<and> ''first_response_count'' \<notin> set ProblemResponseAnswerDistributionSerializer_fields
   \<and> ''last_response_count'' \<notin> set ProblemResponseAnswerDistributionSerializer_fields
   \<and> ProblemFirstLastResponseAnswerDistributionSerializer_fields =
       filter (\<lambda>field. field \<noteq> ''count'') ProblemResponseAnswerDistributionSerializer_fields
         @ [''first_response_count'', ''last_response_count'']
   \<and> distinct ProblemFirstLastResponseAnswerDistributionSerializer_fields"
proof -
  have s: "set ProblemFirstLastResponseAnswerDistributionSerializer_fields =
      (set ProblemResponseAnswerDistributionSerializer_fields - {''count''})
        \<union> {''first_response_count'', ''last_response_count''}"
    by (auto simp add: ProblemFirstLastResponseAnswerDistributionSerializer_fields_def
        ProblemResponseAnswerDistributionSerializer_fields_def)
  have o: "ProblemFirstLastResponseAnswerDistributionSerializer_fields =
      filter (\<lambda>field. field \<noteq> ''count'') ProblemResponseAnswerDistributionSerializer_fields
        @ [''first_response_count'', ''last_response_count'']"
    by (simp add: ProblemFirstLastResponseAnswerDistributionSerializer_fields_def
        ProblemResponseAnswerDistributionSerializer_fields_def)
  have d: "distinct ProblemFirstLastResponseAnswerDistributionSerializer_fields"
    by (simp add: first_last_fields_unfolded)
  have m: "''count'' \<in> set ProblemResponseAnswerDistributionSerializer_fields"
    "''first_response_count'' \<notin> set ProblemResponseAnswerDistributionSerializer_fields"
    "''last_response_count'' \<notin> set ProblemResponseAnswerDistributionSerializer_fields"
    by (simp_all add: ProblemResponseAnswerDistributionSerializer_fields_def)
  have n: "''count'' \<notin> set ProblemFirstLastResponseAnswerDistributionSerializer_fields"
    by (simp add: first_last_fields_unfolded)
  from s o d m n show ?thesis by blast
qed

subsection \<open>Course activity type\<close>

lemma ustr_spellings:
  "ustr ''active'' = [97, 99, 116, 105, 118, 101]"
  "ustr ''Active'' = [65, 99, 116, 105, 118, 101]"
  "ustr ''ACTIVE'' = [65, 67, 84, 73, 86, 69]"
  "ustr ''aCTIVE'' = [97, 67, 84, 73, 86, 69]"
  "ustr ''any'' = [97, 110, 121]"
  "ustr ''Played_Video'' = [80, 108, 97, 121, 101, 100, 95, 86, 105, 100, 101, 111]"
  "ustr ''played_video'' = [112, 108, 97, 121, 101, 100, 95, 118, 105, 100, 101, 111]"
  by (simp_all add: ustr_def)

lemma lowers_ascii_spellings:
  assumes "lowers_ascii py_lower"
  shows "py_lower (ustr ''Active'') = ustr ''active''"
    and "py_lower (ustr ''ACTIVE'') = ustr ''active''"
    and "py_lower (ustr ''active'') = ustr ''active''"
    and "py_lower (ustr ''aCTIVE'') = ustr ''active''"
proof -
  have l: "py_lower s = ascii_lower s" if "\<forall>c \<in> set s. c < 128" for s
    using assms that by (simp add: lowers_ascii_def)
  show "py_lower (ustr ''Active'') = ustr ''active''"
    by (subst l) (simp_all add: ustr_spellings ascii_lower_def)
  show "py_lower (ustr ''ACTIVE'') = ustr ''active''"
    by (subst l) (simp_all add: ustr_spellings ascii_lower_def)
  show "py_lower (ustr ''active'') = ustr ''active''"
    by (subst l) (simp_all add: ustr_spellings ascii_lower_def)
  show "py_lower (ustr ''aCTIVE'') = ustr ''active''"
    by (subst l) (simp_all add: ustr_spellings ascii_lower_def)
qed

lemma lowers_ascii_latin1_lower: "lowers_ascii latin1_lower"
  by (auto simp add: lowers_ascii_def latin1_lower_def ascii_lower_def)

lemma lowers_ascii_ascii_lower: "lowers_ascii ascii_lower"
  by (simp add: lowers_ascii_def)

text \<open>
  Claim C3, as amended. Let the lower-casing be any function that lower-cases ASCII text
  as Python does. The serialized activity type is the lower-cased input with \<open>active\<close>
  replaced by \<open>any\<close>: every input whose lower-cased form is \<open>active\<close> (among them
  \<open>Active\<close>, \<open>ACTIVE\<close> and \<open>active\<close>) serializes to \<open>any\<close>, and every other input
  serializes to its lower-cased form. The result is never \<open>active\<close>.
\<close>

theorem get_activity_type_lowers_then_renames:
  assumes "lowers_ascii py_lower"
  shows "(py_lower (activity_type obj) = ustr ''active'' \<longrightarrow>
            get_activity_type py_lower obj = ustr ''any'')
   \<and> (py_lower (activity_type obj) \<noteq> ustr ''active'' \<longrightarrow>
        get_activity_type py_lower obj = py_lower (activity_type obj))
   \<and> (activity_type obj \<in> {ustr ''Active'', ustr ''ACTIVE'', ustr ''active''} \<longrightarrow>
        get_activity_type py_lower obj = ustr ''any'')
   \<and> get_activity_type py_lower obj \<noteq> ustr ''active''"
  using lowers_ascii_spellings [OF assms]
  by (auto simp add: get_activity_type_def Let_def ustr_spellings)

text \<open>
  The theorem with the Latin-1 lower-casing, at the rows with the activity types
  \<open>ACTIVE\<close>, \<open>Played_Video\<close> and the single letter with code 201, which is not ASCII
  and becomes the letter with code 233.
\<close>

theorem get_activity_type_lowers_then_renames_witness:
  "lowers_ascii latin1_lower
   \<and> latin1_lower (activity_type \<lparr>interval_start = (), interval_end = (),
           activity_type = ustr ''ACTIVE'', count = 7, course_id = ''c1''\<rparr>) = ustr ''active''
   \<and> get_activity_type latin1_lower \<lparr>interval_start = (), interval_end = (),
           activity_type = ustr ''ACTIVE'', count = 7, course_id = ''c1''\<rparr> = ustr ''any''
   \<and> latin1_lower (activity_type \<lparr>interval_start = (), interval_end = (),
           activity_type = ustr ''Played_Video'', count = 7, course_id = ''c1''\<rparr>)
        \<noteq> ustr ''active''
   \<and> get_activity_type latin1_lower \<lparr>interval_start = (), interval_end = (),
           activity_type = ustr ''Played_Video'', count = 7, course_id = ''c1''\<rparr>
        = ustr ''played_video''
   \<and> latin1_lower (activity_type \<lparr>interval_start = (), interval_end = (),
           activity_type = [201], count = 7, course_id = ''c1''\<rparr>) \<noteq> ustr ''active''
   \<and> get_activity_type latin1_lower \<lparr>interval_start = (), interval_end = (),
           activity_type = [201], count = 7, course_id = ''c1''\<rparr> = [233]"
  using get_activity_type_lowers_then_renames
          [OF lowers_ascii_latin1_lower,
           of "\<lparr>interval_start = (), interval_end = (), activity_type = ustr ''ACTIVE'',
                count = 7, course_id = ''c1''\<rparr>"]
        get_activity_type_lowers_then_renames
          [OF lowers_ascii_latin1_lower,
           of "\<lparr>interval_start = (), interval_end = (), activity_type = ustr ''Played_Video'',
                count = 7, course_id = ''c1''\<rparr>"]
        get_activity_type_lowers_then_renames
          [OF lowers_ascii_latin1_lower,
           of "\<lparr>interval_start = (), interval_end = (), activity_type = [201],
                count = 7, course_id = ''c1''\<rparr>"]
  by (simp add: lowers_ascii_latin1_lower ustr_spellings latin1_lower_def)

lemma mixed_case_active_serializes_to_any:
  assumes "lowers_ascii py_lower"
  shows "py_lower (ustr ''aCTIVE'') = ustr ''active''"
    and "get_activity_type py_lower \<lparr>interval_start = a, interval_end = b,
           activity_type = ustr ''aCTIVE'', count = n, course_id = c\<rparr> = ustr ''any''"
  using lowers_ascii_spellings [OF assms] by (simp_all add: get_activity_type_def)

text \<open>
  The input \<open>aCTIVE\<close> is none of the three spellings \<open>Active\<close>, \<open>ACTIVE\<close>,
  \<open>active\<close>. It is ASCII text, with the lower-cased form \<open>active\<close> under every
  lower-casing that treats ASCII as Python does, and it serializes to \<open>any\<close>, not to its
  lower-cased form.
\<close>

theorem get_activity_type_mixed_case_counterexample:
  "ustr ''aCTIVE'' \<notin> {ustr ''Active'', ustr ''ACTIVE'', ustr ''active''}
   \<and> lowers_ascii ascii_lower
   \<and> ascii_lower (ustr ''aCTIVE'') = ustr ''active''
   \<and> get_activity_type ascii_lower \<lparr>interval_start = (), interval_end = (),
        activity_type = ustr ''aCTIVE'', count = 7, course_id = ''c1''\<rparr> = ustr ''any''
   \<and> get_activity_type ascii_lower \<lparr>interval_start = (), interval_end = (),
        activity_type = ustr ''aCTIVE'', count = 7, course_id = ''c1''\<rparr>
        \<noteq> ascii_lower (ustr ''aCTIVE'')"
  by (simp add: get_activity_type_def lowers_ascii_ascii_lower ustr_spellings ascii_lower_def)

subsection \<open>Enrollment by mode\<close>

lemma mode_data_unfolded:
  "CourseEnrollmentModeDailySerializer_mode_data obj =
     [(''audit'', get_audit obj), (''credit'', get_credit obj), (''honor'', get_honor obj),
      (''professional'', get_professional obj), (''verified'', get_verified obj)]"
  by (simp add: CourseEnrollmentModeDailySerializer_mode_data_def
      CourseEnrollmentModeDailySerializer_fields_def
      CourseEnrollmentModeDailySerializer_method_fields_def ENROLLMENT_MODES_def
      enrollment_modes_AUDIT_def enrollment_modes_CREDIT_def enrollment_modes_HONOR_def
      enrollment_modes_PROFESSIONAL_def enrollment_modes_VERIFIED_def map_filter_simps)

lemma ENROLLMENT_MODES_unfolded:
  "ENROLLMENT_MODES = [''audit'', ''credit'', ''honor'', ''professional'', ''verified'']"
  by (simp add: ENROLLMENT_MODES_def
      enrollment_modes_AUDIT_def enrollment_modes_CREDIT_def enrollment_modes_HONOR_def
      enrollment_modes_PROFESSIONAL_def enrollment_modes_VERIFIED_def)

text \<open>
  Claim C2. For every enrollment-by-mode row, the fields contributed by the getters are
  exactly the recognized modes, one field per mode and in the order of the mode list; every
  mode is in \<^verbatim>\<open>Meta.fields\<close>; the field of a mode holds the row's value for that mode
  when the row has the key, and 0 when it has not.
\<close>

theorem enrollment_mode_fields_default_to_zero:
  "map fst (CourseEnrollmentModeDailySerializer_mode_data obj) = ENROLLMENT_MODES
   \<and> (\<forall>mode \<in> set ENROLLMENT_MODES.
        mode \<in> set CourseEnrollmentModeDailySerializer_fields
      \<and> map_of (CourseEnrollmentModeDailySerializer_mode_data obj) mode =
          Some (case obj mode of Some v \<Rightarrow> v | None \<Rightarrow> PyInt 0))"
  by (simp add: mode_data_unfolded ENROLLMENT_MODES_unfolded
      CourseEnrollmentModeDailySerializer_fields_def
      get_audit_def get_credit_def get_honor_def get_professional_def get_verified_def
      dict_get_def)

text \<open>The theorem at a row with audit 4 and honor 9 and no other mode.\<close>

theorem enrollment_mode_fields_default_to_zero_witness:
  "''credit'' \<in> set ENROLLMENT_MODES
   \<and> ''honor'' \<in> set ENROLLMENT_MODES
   \<and> map_of (CourseEnrollmentModeDailySerializer_mode_data
        [''audit'' \<mapsto> (PyInt 4 :: unit pyval), ''honor'' \<mapsto> PyInt 9]) ''credit'' = Some (PyInt 0)
   \<and> map_of (CourseEnrollmentModeDailySerializer_mode_data
        [''audit'' \<mapsto> (PyInt 4 :: unit pyval), ''honor'' \<mapsto> PyInt 9]) ''honor'' = Some (PyInt 9)"
  using enrollment_mode_fields_default_to_zero
          [of "[''audit'' \<mapsto> (PyInt 4 :: unit pyval), ''honor'' \<mapsto> PyInt 9]"]
  by (simp add: ENROLLMENT_MODES_unfolded)

subsection \<open>Learner engagements\<close>

lemma get_engagements_unfolded:
  "get_engagements obj =
     [''discussion_contributions'' \<mapsto>
        default_if_none (getattr obj ''discussion_contributions'' PyNone) (PyInt 0),
      ''problems_attempted'' \<mapsto>
        default_if_none (getattr obj ''problems_attempted'' PyNone) (PyInt 0),
      ''problems_completed'' \<mapsto>
        default_if_none (getattr obj ''problems_completed'' PyNone) (PyInt 0),
      ''videos_viewed'' \<mapsto>
        default_if_none (getattr obj ''videos_viewed'' PyNone) (PyInt 0),
      ''problem_attempts_per_completed'' \<mapsto>
        getattr obj ''problem_attempts_per_completed'' PyNone]"
  by (simp add: get_engagements_def default_if_none_fields_def)

text \<open>
  Claim C10. In the engagements of a learner, each of the four fields
  \<open>discussion_contributions\<close>, \<open>problems_attempted\<close>, \<open>problems_completed\<close> and
  \<open>videos_viewed\<close> is 0 when the attribute is missing or None and the attribute's value
  otherwise, while \<open>problem_attempts_per_completed\<close> is None when the attribute is
  missing or None and the attribute's value otherwise: no default replaces it. The
  engagements have exactly these five keys.
\<close>

theorem engagements_default_all_but_attempts_per_completed:
  "(\<forall>field \<in> set default_if_none_fields.
       (obj field = None \<or> obj field = Some PyNone \<longrightarrow>
          get_engagements obj field = Some (PyInt 0))
     \<and> (\<forall>v. obj field = Some v \<and> v \<noteq> PyNone \<longrightarrow> get_engagements obj field = Some v))
   \<and> (obj ''problem_attempts_per_completed'' = None
        \<or> obj ''problem_attempts_per_completed'' = Some PyNone \<longrightarrow>
          get_engagements obj ''problem_attempts_per_completed'' = Some PyNone)
   \<and> (\<forall>v. obj ''problem_attempts_per_completed'' = Some v \<longrightarrow>
          get_engagements obj ''problem_attempts_per_completed'' = Some v)
   \<and> dom (get_engagements obj) =
       set default_if_none_fields \<union> {''problem_attempts_per_completed''}"
  by (auto simp add: get_engagements_unfolded default_if_none_fields_def default_if_none_def
      getattr_def)

text \<open>
  The theorem at a learner with 4 videos viewed, \<open>problems_attempted\<close> None and no other
  attribute, and at a learner with a ratio of attempts per completed problem.
\<close>

theorem engagements_default_all_but_attempts_per_completed_witness:
  "''problems_attempted'' \<in> set default_if_none_fields
   \<and> ''problems_completed'' \<in> set default_if_none_fields
   \<and> ''videos_viewed'' \<in> set default_if_none_fields
   \<and> get_engagements [''videos_viewed'' \<mapsto> (PyInt 4 :: unit pyval),
          ''problems_attempted'' \<mapsto> PyNone] ''problems_attempted'' = Some (PyInt 0)
   \<and> get_engagements [''videos_viewed'' \<mapsto> (PyInt 4 :: unit pyval),
          ''problems_attempted'' \<mapsto> PyNone] ''problems_completed'' = Some (PyInt 0)
   \<and> get_engagements [''videos_viewed'' \<mapsto> (PyInt 4 :: unit pyval),
          ''problems_attempted'' \<mapsto> PyNone] ''videos_viewed'' = Some (PyInt 4)
   \<and> get_engagements [''videos_viewed'' \<mapsto> (PyInt 4 :: unit pyval),
          ''problems_attempted'' \<mapsto> PyNone] ''problem_attempts_per_completed'' = Some PyNone
   \<and> get_engagements [''problem_attempts_per_completed'' \<mapsto> (PyFloat () :: unit pyval)]
          ''problem_attempts_per_completed'' = Some (PyFloat ())"
  using engagements_default_all_but_attempts_per_completed
          [of "[''videos_viewed'' \<mapsto> (PyInt 4 :: unit pyval), ''problems_attempted'' \<mapsto> PyNone]"]
        engagements_default_all_but_attempts_per_completed
          [of "[''problem_attempts_per_completed'' \<mapsto> (PyFloat () :: unit pyval)]"]
  by (simp add: default_if_none_fields_def)


subsection \<open>Engagement ranges\<close>

lemma foldl_map_upd:
  "foldl (\<lambda>m k. m(k \<mapsto> g k)) m0 ks k' = (if k' \<in> set ks then Some (g k') else m0 k')"
  by (induction ks arbitrary: m0) auto

lemma first_of_filter:
  "(if length (filter P xs) \<noteq> 0 then Some (filter P xs ! 0) else None) = find P xs"
  by (induction xs) auto

lemma find_first_match:
  "\<forall>x \<in> set pre. \<not> P x \<Longrightarrow> P r \<Longrightarrow> find P (pre @ r # post) = Some r"
  by (induction pre) auto

lemma find_no_match: "\<forall>x \<in> set xs. \<not> P x \<Longrightarrow> find P xs = None"
  by (induction xs) auto

text \<open>The entry of a known metric, with the first row of each filter written as \<open>find\<close>.\<close>

lemma get_engagement_ranges_metric:
  assumes "m \<in> set EVENTS"
  shows "get_engagement_ranges EVENTS fmt obj m =
     Some (MetricRanges
       \<lparr>below_average =
          transform_range (find (\<lambda>row. metric row = m \<and> range_type row = ''low'')
            (engagement_ranges obj)),
        average =
          transform_range (find (\<lambda>row. metric row = m \<and> range_type row = ''normal'')
            (engagement_ranges obj)),
        above_average =
          transform_range (find (\<lambda>row. metric row = m \<and> range_type row = ''high'')
            (engagement_ranges obj))\<rparr>)"
  using assms
  by (simp add: get_engagement_ranges_def Let_def foldl_map_upd first_of_filter [symmetric]
      queryset_filter_def EnagementRangeMetricSerializer_data_def get_average_range_def
      get_below_average_range_def get_above_average_range_def)

text \<open>
  Claim C4. For every metric of the list of known metrics, when the collection has no row
  of that metric, the result has an entry for the metric whose \<open>below_average\<close>,
  \<open>average\<close> and \<open>above_average\<close> are all None: the metric is a key of the result and
  is not dropped.
\<close>

theorem metric_without_rows_has_null_buckets:
  assumes "m \<in> set EVENTS"
    and "\<forall>row \<in> set (engagement_ranges obj). metric row \<noteq> m"
  shows "get_engagement_ranges EVENTS fmt obj m =
           Some (MetricRanges \<lparr>below_average = None, average = None, above_average = None\<rparr>)
         \<and> m \<in> dom (get_engagement_ranges EVENTS fmt obj)"
proof -
  have "find (\<lambda>row. metric row = m \<and> range_type row = t) (engagement_ranges obj) = None" for t
    using assms(2) by (simp add: find_no_match)
  then show ?thesis
    using assms(1) by (simp add: get_engagement_ranges_metric transform_range_def domIff)
qed

text \<open>The theorem at a collection with one row, of another metric.\<close>

theorem metric_without_rows_has_null_buckets_witness:
  "''problems_attempted'' \<in> set [''problems_attempted'', ''videos_viewed'']
   \<and> ''problems_attempted'' \<notin> set (map metric (engagement_ranges
          \<lparr>es_data = (), engagement_ranges =
             [\<lparr>metric = ''videos_viewed'', range_type = ''low'', low_value = 0::int,
               high_value = 3, start_date = (), end_date = ()\<rparr>]\<rparr>))
   \<and> get_engagement_ranges [''problems_attempted'', ''videos_viewed''] (\<lambda>d. ''2016-01-01'')
        \<lparr>es_data = (), engagement_ranges =
           [\<lparr>metric = ''videos_viewed'', range_type = ''low'', low_value = 0::int,
             high_value = 3, start_date = (), end_date = ()\<rparr>]\<rparr> ''problems_attempted'' =
        Some (MetricRanges \<lparr>below_average = None, average = None, above_average = None\<rparr>)"
  using metric_without_rows_has_null_buckets
          [of "''problems_attempted''" "[''problems_attempted'', ''videos_viewed'']"
              "\<lparr>es_data = (), engagement_ranges =
                 [\<lparr>metric = ''videos_viewed'', range_type = ''low'', low_value = 0::int,
                   high_value = 3, start_date = (), end_date = ()\<rparr>]\<rparr>"
              "\<lambda>d. ''2016-01-01''"]
  by simp

text \<open>
  Claim C5. For every known metric and each of the range types low, normal and high
  (serialized as \<open>below_average\<close>, \<open>average\<close> and \<open>above_average\<close>): when the
  collection is \<open>pre @ row # post\<close>, with no row of \<open>pre\<close> matching the metric and the
  range type and \<open>row\<close> matching them, the bucket is the pair
  \<open>[low_value row, high_value row]\<close>, whatever \<open>post\<close> holds, so the first matching row in
  input order is selected and later matching rows are ignored; when no row matches, the
  bucket is None.
\<close>

theorem shaper_picks_first_matching_row:
  assumes "m \<in> set EVENTS"
  shows "\<exists>e. get_engagement_ranges EVENTS fmt obj m = Some (MetricRanges e)
     \<and> (\<forall>pre row post.
           engagement_ranges obj = pre @ row # post
           \<and> (\<forall>x \<in> set pre. \<not> (metric x = m \<and> range_type x = ''low''))
           \<and> metric row = m \<and> range_type row = ''low''
           \<longrightarrow> below_average e = Some [low_value row, high_value row])
     \<and> ((\<forall>x \<in> set (engagement_ranges obj). \<not> (metric x = m \<and> range_type x = ''low''))
           \<longrightarrow> below_average e = None)
     \<and> (\<forall>pre row post.
           engagement_ranges obj = pre @ row # post
           \<and> (\<forall>x \<in> set pre. \<not> (metric x = m \<and> range_type x = ''normal''))
           \<and> metric row = m \<and> range_type row = ''normal''
           \<longrightarrow> average e = Some [low_value row, high_value row])
     \<and> ((\<forall>x \<in> set (engagement_ranges obj). \<not> (metric x = m \<and> range_type x = ''normal''))
           \<longrightarrow> average e = None)
     \<and> (\<forall>pre row post.
           engagement_ranges obj = pre @ row # post
           \<and> (\<forall>x \<in> set pre. \<not> (metric x = m \<and> range_type x = ''high''))
           \<and> metric row = m \<and> range_type row = ''high''
           \<longrightarrow> above_average e = Some [low_value row, high_value row])
     \<and> ((\<forall>x \<in> set (engagement_ranges obj). \<not> (metric x = m \<and> range_type x = ''high''))
           \<longrightarrow> above_average e = None)"
proof -
  have first: "transform_range (find (\<lambda>x. metric x = m \<and> range_type x = t)
                 (engagement_ranges obj)) = Some [low_value row, high_value row]"
    if "engagement_ranges obj = pre @ row # post"
      and "\<forall>x \<in> set pre. \<not> (metric x = m \<and> range_type x = t)"
      and "metric row = m" and "range_type row = t"
    for t pre row post
  proof -
    have "find (\<lambda>x. metric x = m \<and> range_type x = t) (pre @ row # post) = Some row"
      using that(2,3,4) by (intro find_first_match) simp_all
    then show ?thesis
      by (simp add: that(1) transform_range_def)
  qed
  have none: "transform_range (find (\<lambda>x. metric x = m \<and> range_type x = t)
                (engagement_ranges obj)) = None"
    if "\<forall>x \<in> set (engagement_ranges obj). \<not> (metric x = m \<and> range_type x = t)" for t
    using that by (simp add: find_no_match transform_range_def)
  show ?thesis
    unfolding get_engagement_ranges_metric [OF assms]
    using first none by auto
qed

text \<open>
  The theorem at a collection with two low rows and one high row of \<open>videos_viewed\<close>: the
  first low row gives \<open>below_average\<close>, the second is ignored, and \<open>average\<close> is None.
\<close>

theorem shaper_picks_first_matching_row_witness:
  "''videos_viewed'' \<in> set [''problems_attempted'', ''videos_viewed'']
   \<and> engagement_ranges
        \<lparr>es_data = (), engagement_ranges =
           [\<lparr>metric = ''videos_viewed'', range_type = ''low'', low_value = 0::int,
             high_value = 3, start_date = (), end_date = ()\<rparr>,
            \<lparr>metric = ''videos_viewed'', range_type = ''low'', low_value = 5,
             high_value = 9, start_date = (), end_date = ()\<rparr>,
            \<lparr>metric = ''videos_viewed'', range_type = ''high'', low_value = 10,
             high_value = 20, start_date = (), end_date = ()\<rparr>]\<rparr> =
       [] @ \<lparr>metric = ''videos_viewed'', range_type = ''low'', low_value = 0::int,
               high_value = 3, start_date = (), end_date = ()\<rparr>
          # [\<lparr>metric = ''videos_viewed'', range_type = ''low'', low_value = 5,
               high_value = 9, start_date = (), end_date = ()\<rparr>,
             \<lparr>metric = ''videos_viewed'', range_type = ''high'', low_value = 10,
               high_value = 20, start_date = (), end_date = ()\<rparr>]
   \<and> get_engagement_ranges [''problems_attempted'', ''videos_viewed''] (\<lambda>d. ''2016-01-01'')
        \<lparr>es_data = (), engagement_ranges =
           [\<lparr>metric = ''videos_viewed'', range_type = ''low'', low_value = 0::int,
             high_value = 3, start_date = (), end_date = ()\<rparr>,
            \<lparr>metric = ''videos_viewed'', range_type = ''low'', low_value = 5,
             high_value = 9, start_date = (), end_date = ()\<rparr>,
            \<lparr>metric = ''videos_viewed'', range_type = ''high'', low_value = 10,
             high_value = 20, start_date = (), end_date = ()\<rparr>]\<rparr> ''videos_viewed'' =
        Some (MetricRanges \<lparr>below_average = Some [0, 3], average = None,
                above_average = Some [10, 20]\<rparr>)"
  using shaper_picks_first_matching_row
          [of "''videos_viewed''" "[''problems_attempted'', ''videos_viewed'']"
              "\<lambda>d. ''2016-01-01''"
              "\<lparr>es_data = (), engagement_ranges =
                 [\<lparr>metric = ''videos_viewed'', range_type = ''low'', low_value = 0::int,
                   high_value = 3, start_date = (), end_date = ()\<rparr>,
                  \<lparr>metric = ''videos_viewed'', range_type = ''low'', low_value = 5,
                   high_value = 9, start_date = (), end_date = ()\<rparr>,
                  \<lparr>metric = ''videos_viewed'', range_type = ''high'', low_value = 10,
                   high_value = 20, start_date = (), end_date = ()\<rparr>]\<rparr>"]
  by (simp add: get_engagement_ranges_def queryset_filter_def
      EnagementRangeMetricSerializer_data_def get_average_range_def
      get_below_average_range_def get_above_average_range_def transform_range_def)

subsection \<open>Connection bootstrap\<close>

text \<open>
  Claim C9. Without a configured host (the setting is None or empty) \<open>ready\<close> returns
  without a call of \<^verbatim>\<open>create_connection\<close>. When \<open>ready\<close> calls it, a host is configured,
  no parameter of the call is None, \<open>hosts\<close> is the list of the one configured host, and
  each of \<open>aws_access_key_id\<close>, \<open>aws_secret_access_key\<close> and \<open>region\<close> is absent from
  the parameters when its setting is None and is the setting's value otherwise;
  \<open>connection_class\<close> is absent when no class is configured. With a host and no class
  configured the call is made.
\<close>

theorem ready_connects_without_unset_parameters:
  "(\<not> truthy (ELASTICSEARCH_LEARNERS_HOST s) \<longrightarrow> ready resolve s = Inr None)
   \<and> (\<forall>connection_params. ready resolve s = Inr (Some connection_params) \<longrightarrow>
         truthy (ELASTICSEARCH_LEARNERS_HOST s)
       \<and> (\<forall>key. connection_params key \<noteq> Some ParamNone)
       \<and> (\<exists>host. ELASTICSEARCH_LEARNERS_HOST s = Some host
             \<and> connection_params ''hosts'' = Some (ParamHosts [host]))
       \<and> (\<not> truthy (ELASTICSEARCH_CONNECTION_CLASS s) \<longrightarrow> connection_params ''connection_class'' = None)
       \<and> connection_params ''aws_access_key_id'' =
            map_option ParamStr (ELASTICSEARCH_AWS_ACCESS_KEY_ID s)
       \<and> connection_params ''aws_secret_access_key'' =
            map_option ParamStr (ELASTICSEARCH_AWS_SECRET_ACCESS_KEY s)
       \<and> connection_params ''region'' =
            map_option ParamStr (ELASTICSEARCH_CONNECTION_DEFAULT_REGION s))
   \<and> (truthy (ELASTICSEARCH_LEARNERS_HOST s) \<and> \<not> truthy (ELASTICSEARCH_CONNECTION_CLASS s) \<longrightarrow>
        (\<exists>connection_params. ready resolve s = Inr (Some connection_params)))"
  by (auto simp add: ready_def truthy_def setting_value_def Let_def
      split: option.splits sum.splits if_splits)

text \<open>
  The theorem at settings without a host, and at settings with a host and an access key
  and nothing else.
\<close>

theorem ready_connects_without_unset_parameters_witness:
  "\<not> truthy (ELASTICSEARCH_LEARNERS_HOST
        \<lparr>ELASTICSEARCH_LEARNERS_HOST = None, ELASTICSEARCH_CONNECTION_CLASS = Some ''a.b.C'',
         ELASTICSEARCH_AWS_ACCESS_KEY_ID = Some ''AK'',
         ELASTICSEARCH_AWS_SECRET_ACCESS_KEY = None,
         ELASTICSEARCH_CONNECTION_DEFAULT_REGION = None\<rparr>)
   \<and> ready (\<lambda>module_name class_name. Inr (ParamClass ()))
        \<lparr>ELASTICSEARCH_LEARNERS_HOST = None, ELASTICSEARCH_CONNECTION_CLASS = Some ''a.b.C'',
         ELASTICSEARCH_AWS_ACCESS_KEY_ID = Some ''AK'',
         ELASTICSEARCH_AWS_SECRET_ACCESS_KEY = None,
         ELASTICSEARCH_CONNECTION_DEFAULT_REGION = None\<rparr> = Inr None
   \<and> truthy (ELASTICSEARCH_LEARNERS_HOST
        \<lparr>ELASTICSEARCH_LEARNERS_HOST = Some ''http://localhost:9200'',
         ELASTICSEARCH_CONNECTION_CLASS = None,
         ELASTICSEARCH_AWS_ACCESS_KEY_ID = Some ''AK'',
         ELASTICSEARCH_AWS_SECRET_ACCESS_KEY = None,
         ELASTICSEARCH_CONNECTION_DEFAULT_REGION = None\<rparr>)
   \<and> \<not> truthy (ELASTICSEARCH_CONNECTION_CLASS
        \<lparr>ELASTICSEARCH_LEARNERS_HOST = Some ''http://localhost:9200'',
         ELASTICSEARCH_CONNECTION_CLASS = None,
         ELASTICSEARCH_AWS_ACCESS_KEY_ID = Some ''AK'',
         ELASTICSEARCH_AWS_SECRET_ACCESS_KEY = None,
         ELASTICSEARCH_CONNECTION_DEFAULT_REGION = None\<rparr>)
   \<and> (\<exists>connection_params.
         ready (\<lambda>module_name class_name. Inr (ParamClass ()))
           \<lparr>ELASTICSEARCH_LEARNERS_HOST = Some ''http://localhost:9200'',
            ELASTICSEARCH_CONNECTION_CLASS = None,
            ELASTICSEARCH_AWS_ACCESS_KEY_ID = Some ''AK'',
            ELASTICSEARCH_AWS_SECRET_ACCESS_KEY = None,
            ELASTICSEARCH_CONNECTION_DEFAULT_REGION = None\<rparr> = Inr (Some connection_params)
       \<and> connection_params ''hosts'' = Some (ParamHosts [''http://localhost:9200''])
       \<and> connection_params ''aws_access_key_id'' = Some (ParamStr ''AK'')
       \<and> connection_params ''aws_secret_access_key'' = None
       \<and> connection_params ''region'' = None
       \<and> connection_params ''connection_class'' = None)"
  using ready_connects_without_unset_parameters
          [of "\<lparr>ELASTICSEARCH_LEARNERS_HOST = None,
                ELASTICSEARCH_CONNECTION_CLASS = Some ''a.b.C'',
                ELASTICSEARCH_AWS_ACCESS_KEY_ID = Some ''AK'',
                ELASTICSEARCH_AWS_SECRET_ACCESS_KEY = None,
                ELASTICSEARCH_CONNECTION_DEFAULT_REGION = None\<rparr>"
              "\<lambda>module_name class_name. Inr (ParamClass ())"]
        ready_connects_without_unset_parameters
          [of "\<lparr>ELASTICSEARCH_LEARNERS_HOST = Some ''http://localhost:9200'',
                ELASTICSEARCH_CONNECTION_CLASS = None,
                ELASTICSEARCH_AWS_ACCESS_KEY_ID = Some ''AK'',
                ELASTICSEARCH_AWS_SECRET_ACCESS_KEY = None,
                ELASTICSEARCH_CONNECTION_DEFAULT_REGION = None\<rparr>"
              "\<lambda>module_name class_name. Inr (ParamClass ())"]
  by (auto simp add: truthy_def)

subsection \<open>Consolidated answer distributions\<close>









end
